theory Spec2Isabelle
  imports Main "HOL-Library.Word"
begin

unbundle bit_operations_syntax

section \<open>Go runtime: panics, slices, loops\<close>

text \<open>
  A run of the Go code ends in one of three ways: it returns, it panics (a nil
  dereference, an index or slice bound out of range, \<^verbatim>\<open>log.Fatal\<close>), or it never
  returns. A function without unbounded loops has the result type \<open>error + 'a\<close>; a
  function with an unbounded loop takes fuel (one unit per iteration) and has the result
  type \<open>(error + 'a) option\<close>, where \<open>None\<close> means that the fuel ran out.
\<close>

datatype error =
    NilDereference
  | IndexOutOfRange int nat
  | SliceOutOfRange int nat
  | Fatal string

type_synonym 'a result = "error + 'a"
type_synonym 'a run = "(error + 'a) option"

fun ebind :: "'a result \<Rightarrow> ('a \<Rightarrow> 'b result) \<Rightarrow> 'b result" where
  "ebind (Inl e) f = Inl e"
| "ebind (Inr x) f = f x"

fun obind :: "'a run \<Rightarrow> ('a \<Rightarrow> 'b run) \<Rightarrow> 'b run" where
  "obind None f = None"
| "obind (Some (Inl e)) f = Some (Inl e)"
| "obind (Some (Inr x)) f = f x"

text \<open>\<^verbatim>\<open>xs[i]\<close>, \<^verbatim>\<open>xs[i] = v\<close> and \<^verbatim>\<open>xs[i:]\<close> with Go's bounds checks.\<close>

definition index_at :: "'a list \<Rightarrow> int \<Rightarrow> 'a result" where
  "index_at xs i =
     (if 0 \<le> i \<and> i < int (length xs) then Inr (xs ! nat i)
      else Inl (IndexOutOfRange i (length xs)))"

definition store_at :: "'a list \<Rightarrow> int \<Rightarrow> 'a \<Rightarrow> 'a list result" where
  "store_at xs i v =
     (if 0 \<le> i \<and> i < int (length xs) then Inr (xs[nat i := v])
      else Inl (IndexOutOfRange i (length xs)))"

definition slice_from :: "'a list \<Rightarrow> int \<Rightarrow> 'a list result" where
  "slice_from xs i =
     (if 0 \<le> i \<and> i \<le> int (length xs) then Inr (drop (nat i) xs)
      else Inl (SliceOutOfRange i (length xs)))"

text \<open>\<^verbatim>\<open>copy(dst, src)\<close> copies \<open>min (len dst) (len src)\<close> elements; the result is the
  new content of \<open>dst\<close>.\<close>

definition go_copy :: "'a list \<Rightarrow> 'a list \<Rightarrow> 'a list" where
  "go_copy dst src =
     take (min (length dst) (length src)) src @ drop (min (length dst) (length src)) dst"

section \<open>encoder.go\<close>

abbreviation (input) HEATSHRINK_MIN_WINDOW_BITS :: "8 word" where "HEATSHRINK_MIN_WINDOW_BITS \<equiv> 4"
abbreviation (input) HEATSHRINK_MAX_WINDOW_BITS :: "8 word" where "HEATSHRINK_MAX_WINDOW_BITS \<equiv> 15"
abbreviation (input) HEATSHRINK_MIN_LOOKAHEAD_BITS :: "8 word" where "HEATSHRINK_MIN_LOOKAHEAD_BITS \<equiv> 3"

abbreviation (input) HSER_SINK_OK :: int where "HSER_SINK_OK \<equiv> 0"
abbreviation (input) HSER_SINK_ERROR_MISUSE :: int where "HSER_SINK_ERROR_MISUSE \<equiv> - 2"
abbreviation (input) HSER_POLL_EMPTY :: int where "HSER_POLL_EMPTY \<equiv> 0"
abbreviation (input) HSER_POLL_MORE :: int where "HSER_POLL_MORE \<equiv> 1"
abbreviation (input) HSER_POLL_ERROR_MISUSE :: int where "HSER_POLL_ERROR_MISUSE \<equiv> - 2"
abbreviation (input) HSER_FINISH_DONE :: int where "HSER_FINISH_DONE \<equiv> 0"
abbreviation (input) HSER_FINISH_MORE :: int where "HSER_FINISH_MORE \<equiv> 1"

text \<open>The struct \<^verbatim>\<open>encoder\<close>. The two structs of the package share field names, so the
  fields carry the name of the receiver variable (\<^verbatim>\<open>hse\<close>, \<^verbatim>\<open>hsd\<close>) as a prefix.
  \<open>search_index\<close> holds \<^verbatim>\<open>int16\<close> values, read with \<open>sint\<close>.\<close>

record encoder =
  hse_input_size :: "16 word"
  hse_match_scan_index :: "16 word"
  hse_match_length :: "16 word"
  hse_match_pos :: "16 word"
  hse_outgoing_bits :: "16 word"
  hse_outgoing_bits_count :: "8 word"
  hse_finishing :: bool
  hse_state :: "8 word"
  hse_current_byte :: "8 word"
  hse_bit_index :: "8 word"
  hse_window_sz2 :: "8 word"
  hse_lookahead_sz2 :: "8 word"
  hse_search_index :: "16 word list"
  hse_buffer :: "8 word list"
  hse_outbuf :: "8 word list"

abbreviation (input) HSES_NOT_FULL :: "8 word" where "HSES_NOT_FULL \<equiv> 0"
abbreviation (input) HSES_FILLED :: "8 word" where "HSES_FILLED \<equiv> 1"
abbreviation (input) HSES_SEARCH :: "8 word" where "HSES_SEARCH \<equiv> 2"
abbreviation (input) HSES_YIELD_TAG_BIT :: "8 word" where "HSES_YIELD_TAG_BIT \<equiv> 3"
abbreviation (input) HSES_YIELD_LITERAL :: "8 word" where "HSES_YIELD_LITERAL \<equiv> 4"
abbreviation (input) HSES_YIELD_BR_INDEX :: "8 word" where "HSES_YIELD_BR_INDEX \<equiv> 5"
abbreviation (input) HSES_YIELD_BR_LENGTH :: "8 word" where "HSES_YIELD_BR_LENGTH \<equiv> 6"
abbreviation (input) HSES_SAVE_BACKLOG :: "8 word" where "HSES_SAVE_BACKLOG \<equiv> 7"
abbreviation (input) HSES_FLUSH_BITS :: "8 word" where "HSES_FLUSH_BITS \<equiv> 8"
abbreviation (input) HSES_DONE :: "8 word" where "HSES_DONE \<equiv> 9"

abbreviation (input) MATCH_NOT_FOUND :: "16 word" where "MATCH_NOT_FOUND \<equiv> 0xffff"
abbreviation (input) HEATSHRINK_LITERAL_MARKER :: "8 word" where "HEATSHRINK_LITERAL_MARKER \<equiv> 1"
abbreviation (input) HEATSHRINK_BACKREF_MARKER :: "8 word" where "HEATSHRINK_BACKREF_MARKER \<equiv> 0"

definition encoder_reset :: "encoder \<Rightarrow> encoder" where
  "encoder_reset hse =
     hse\<lparr>hse_input_size := 0,
         hse_state := HSES_NOT_FULL,
         hse_match_scan_index := 0,
         hse_finishing := False,
         hse_bit_index := 0x80,
         hse_current_byte := 0x00,
         hse_match_length := 0,
         hse_outgoing_bits := 0x0000,
         hse_outgoing_bits_count := 0,
         hse_outbuf := []\<rparr>"

text \<open>\<^verbatim>\<open>&encoder{}\<close>: every field has its zero value.\<close>

definition encoder_zero :: encoder where
  "encoder_zero =
     \<lparr>hse_input_size = 0, hse_match_scan_index = 0, hse_match_length = 0,
      hse_match_pos = 0, hse_outgoing_bits = 0, hse_outgoing_bits_count = 0,
      hse_finishing = False, hse_state = 0, hse_current_byte = 0, hse_bit_index = 0,
      hse_window_sz2 = 0, hse_lookahead_sz2 = 0, hse_search_index = [],
      hse_buffer = [], hse_outbuf = []\<rparr>"

text \<open>A nil pointer is \<open>None\<close>. \<^verbatim>\<open>buf_sz := (2 << window_sz2)\<close> is an \<^verbatim>\<open>int\<close>.\<close>

definition encoder_alloc :: "8 word \<Rightarrow> 8 word \<Rightarrow> encoder option" where
  "encoder_alloc window_sz2 lookahead_sz2 =
     (if window_sz2 < HEATSHRINK_MIN_WINDOW_BITS \<or>
         window_sz2 > HEATSHRINK_MAX_WINDOW_BITS \<or>
         lookahead_sz2 < HEATSHRINK_MIN_LOOKAHEAD_BITS \<or>
         lookahead_sz2 \<ge> window_sz2
      then None
      else
        let buf_sz = 2 * 2 ^ unat window_sz2;
            hse = encoder_reset
                    (encoder_zero\<lparr>hse_window_sz2 := window_sz2,
                                  hse_lookahead_sz2 := lookahead_sz2\<rparr>)
        in Some (hse\<lparr>hse_buffer := replicate buf_sz 0,
                     hse_search_index := replicate buf_sz 0\<rparr>))"

definition is_finishing :: "encoder \<Rightarrow> bool" where
  "is_finishing hse = hse_finishing hse"

definition get_input_buffer_size :: "encoder \<Rightarrow> 16 word" where
  "get_input_buffer_size hse = push_bit (unat (hse_window_sz2 hse)) 1"

definition get_input_offset :: "encoder \<Rightarrow> 16 word" where
  "get_input_offset hse = get_input_buffer_size hse"

definition get_lookahead_size :: "encoder \<Rightarrow> 16 word" where
  "get_lookahead_size hse = push_bit (unat (hse_lookahead_sz2 hse)) 1"

definition encoder_sink :: "encoder \<Rightarrow> 8 word list \<Rightarrow> (int \<times> 16 word \<times> encoder) result" where
  "encoder_sink hse in_buf =
     (if is_finishing hse then Inr (HSER_SINK_ERROR_MISUSE, 0, hse)
      else if hse_state hse \<noteq> HSES_NOT_FULL then Inr (HSER_SINK_ERROR_MISUSE, 0, hse)
      else
        let write_offset = get_input_offset hse + hse_input_size hse;
            ibs = get_input_buffer_size hse;
            rem = ibs - hse_input_size hse;
            cp_sz = (if int (length in_buf) < uint rem then word_of_nat (length in_buf) else rem)
        in ebind (slice_from (hse_buffer hse) (uint write_offset)) (\<lambda>dst.
             let hse1 = hse\<lparr>hse_buffer := take (unat write_offset) (hse_buffer hse) @
                                            go_copy dst (take (unat cp_sz) in_buf),
                            hse_input_size := hse_input_size hse + cp_sz\<rparr>;
                 hse2 = (if cp_sz = rem then hse1\<lparr>hse_state := HSES_FILLED\<rparr> else hse1)
             in Inr (HSER_SINK_OK, cp_sz, hse2)))"

definition encoder_finish :: "encoder \<Rightarrow> int \<times> encoder" where
  "encoder_finish hse =
     (let hse1 = hse\<lparr>hse_finishing := True\<rparr>;
          hse2 = (if hse_state hse1 = HSES_NOT_FULL then hse1\<lparr>hse_state := HSES_FILLED\<rparr> else hse1)
      in if hse_state hse2 = HSES_DONE then (HSER_FINISH_DONE, hse2)
         else (HSER_FINISH_MORE, hse2))"

subsection \<open>Bit output\<close>

text \<open>The loop of \<^verbatim>\<open>push_bits\<close>, for \<open>i\<close> from \<open>n - 1\<close> down to \<open>0\<close>.\<close>

fun push_bits_loop :: "nat \<Rightarrow> 8 word \<Rightarrow> encoder \<Rightarrow> encoder" where
  "push_bits_loop 0 bits hse = hse"
| "push_bits_loop (Suc i) bits hse =
     (let hse1 = (if bits AND push_bit i 1 \<noteq> 0
                  then hse\<lparr>hse_current_byte := hse_current_byte hse OR hse_bit_index hse\<rparr>
                  else hse);
          hse2 = hse1\<lparr>hse_bit_index := drop_bit 1 (hse_bit_index hse1)\<rparr>;
          hse3 = (if hse_bit_index hse2 = 0x00
                  then hse2\<lparr>hse_bit_index := 0x80,
                            hse_outbuf := hse_outbuf hse2 @ [hse_current_byte hse2],
                            hse_current_byte := 0x00\<rparr>
                  else hse2)
      in push_bits_loop i bits hse3)"

definition push_bits :: "encoder \<Rightarrow> 8 word \<Rightarrow> 8 word \<Rightarrow> encoder result" where
  "push_bits hse count bits =
     (if count > 8 then Inl (Fatal ''Bit count assert failed.'')
      else if count = 8 \<and> hse_bit_index hse = 0x80
        then Inr (hse\<lparr>hse_outbuf := hse_outbuf hse @ [bits]\<rparr>)
      else Inr (push_bits_loop (unat count) bits hse))"

definition add_tag_bit :: "encoder \<Rightarrow> 8 word \<Rightarrow> encoder result" where
  "add_tag_bit hse tag = push_bits hse 1 tag"

definition push_outgoing_bits :: "encoder \<Rightarrow> (8 word \<times> encoder) result" where
  "push_outgoing_bits hse =
     (let (count, bits) =
            (if hse_outgoing_bits_count hse > 8
             then (8, ucast (drop_bit (unat (hse_outgoing_bits_count hse - 8)) (hse_outgoing_bits hse)))
             else (hse_outgoing_bits_count hse, ucast (hse_outgoing_bits hse)))
      in if count > 0
         then ebind (push_bits hse count bits) (\<lambda>hse1.
                Inr (count, hse1\<lparr>hse_outgoing_bits_count := hse_outgoing_bits_count hse1 - count\<rparr>))
         else Inr (count, hse))"

definition push_literal_byte :: "encoder \<Rightarrow> encoder result" where
  "push_literal_byte hse =
     (let processed_offset = hse_match_scan_index hse - 1;
          input_offset = get_input_offset hse + processed_offset
      in ebind (index_at (hse_buffer hse) (uint input_offset)) (\<lambda>c. push_bits hse 8 c))"

definition save_backlog :: "encoder \<Rightarrow> encoder result" where
  "save_backlog hse =
     (let input_buf_sz = get_input_buffer_size hse;
          msi = hse_match_scan_index hse;
          rem = input_buf_sz - msi
      in ebind (slice_from (hse_buffer hse) (uint (input_buf_sz - rem))) (\<lambda>src.
           Inr (hse\<lparr>hse_buffer := go_copy (hse_buffer hse) src,
                    hse_match_scan_index := 0,
                    hse_input_size := hse_input_size hse - (input_buf_sz - rem)\<rparr>)))"

subsection \<open>Indexing and match search\<close>

text \<open>The loop of \<^verbatim>\<open>do_indexing\<close>: \<open>k\<close> iterations are left, the next one is for \<open>i\<close>.
  \<open>last_tbl\<close> is the array \<^verbatim>\<open>last\<close> of 256 entries, indexed by a byte.\<close>

fun do_indexing_loop ::
  "nat \<Rightarrow> nat \<Rightarrow> 8 word list \<Rightarrow> 16 word list \<Rightarrow> 16 word list \<Rightarrow> 16 word list result" where
  "do_indexing_loop 0 i data last_tbl index = Inr index"
| "do_indexing_loop (Suc k) i data last_tbl index =
     ebind (index_at data (int i)) (\<lambda>v.
       let lv = last_tbl ! unat v
       in ebind (store_at index (int i) lv) (\<lambda>index1.
            do_indexing_loop k (Suc i) data (last_tbl[unat v := word_of_nat i]) index1))"

definition do_indexing :: "encoder \<Rightarrow> encoder result" where
  "do_indexing hse =
     (let last_tbl = replicate 256 (- 1);
          data = hse_buffer hse;
          index = hse_search_index hse;
          input_offset = get_input_offset hse;
          endp = input_offset + hse_input_size hse
      in ebind (do_indexing_loop (unat endp) 0 data last_tbl index) (\<lambda>index1.
           Inr (hse\<lparr>hse_search_index := index1\<rparr>)))"

text \<open>The inner loop of \<^verbatim>\<open>find_longest_match\<close>:
  \<^verbatim>\<open>for len = 1; len < maxlen; len++ { if pospoint[len] != needlepoint[len] { break } }\<close>;
  it returns the final \<open>len\<close>.\<close>

function match_len_loop :: "8 word list \<Rightarrow> 8 word list \<Rightarrow> 16 word \<Rightarrow> 16 word \<Rightarrow> 16 word result" where
  "match_len_loop pospoint needlepoint maxlen len =
     (if len < maxlen
      then ebind (index_at pospoint (uint len)) (\<lambda>a.
           ebind (index_at needlepoint (uint len)) (\<lambda>b.
             if a \<noteq> b then Inr len
             else match_len_loop pospoint needlepoint maxlen (len + 1)))
      else Inr len)"
  by pat_completeness auto
termination
  by (relation "measure (\<lambda>(pospoint, needlepoint, maxlen, len). unat maxlen - unat len)",
      simp, simp, unat_arith)

declare match_len_loop.simps [simp del]

text \<open>The outer loop of \<^verbatim>\<open>find_longest_match\<close>; it returns \<open>(match_maxlen, match_index)\<close>.
  \<open>pos\<close> is an \<^verbatim>\<open>int16\<close>, and \<^verbatim>\<open>int16(pos)-int16(start)\<close> wraps.\<close>

fun find_longest_match_loop ::
  "nat \<Rightarrow> encoder \<Rightarrow> 16 word \<Rightarrow> 8 word list \<Rightarrow> 16 word \<Rightarrow> 16 word \<Rightarrow> 16 word \<Rightarrow> 16 word
     \<Rightarrow> (16 word \<times> 16 word) run" where
  "find_longest_match_loop 0 hse start needlepoint maxlen pos match_maxlen match_index = None"
| "find_longest_match_loop (Suc n) hse start needlepoint maxlen pos match_maxlen match_index =
     (if 0 \<le> sint (pos - start)
      then obind (Some (slice_from (hse_buffer hse) (sint pos))) (\<lambda>pospoint.
           obind (Some (index_at pospoint (uint match_maxlen))) (\<lambda>a.
           obind (Some (index_at needlepoint (uint match_maxlen))) (\<lambda>b.
             if a \<noteq> b
             then obind (Some (index_at (hse_search_index hse) (sint pos))) (\<lambda>pos1.
                    find_longest_match_loop n hse start needlepoint maxlen pos1 match_maxlen match_index)
             else obind (Some (match_len_loop pospoint needlepoint maxlen 1)) (\<lambda>len.
                    if len > match_maxlen
                    then (if len = maxlen then Some (Inr (len, pos))
                          else obind (Some (index_at (hse_search_index hse) (sint pos))) (\<lambda>pos1.
                                 find_longest_match_loop n hse start needlepoint maxlen pos1 len pos))
                    else obind (Some (index_at (hse_search_index hse) (sint pos))) (\<lambda>pos1.
                           find_longest_match_loop n hse start needlepoint maxlen pos1
                             match_maxlen match_index)))))
      else Some (Inr (match_maxlen, match_index)))"

definition find_longest_match ::
  "nat \<Rightarrow> encoder \<Rightarrow> 16 word \<Rightarrow> 16 word \<Rightarrow> 16 word \<Rightarrow> (16 word \<times> 16 word) run" where
  "find_longest_match fuel hse start endp maxlen =
     obind (Some (slice_from (hse_buffer hse) (uint endp))) (\<lambda>needlepoint.
     obind (Some (index_at (hse_search_index hse) (uint endp))) (\<lambda>pos.
     obind (find_longest_match_loop fuel hse start needlepoint maxlen pos 0 MATCH_NOT_FOUND)
       (\<lambda>(match_maxlen, match_index).
          let break_even_point = 1 + ucast (hse_window_sz2 hse) + ucast (hse_lookahead_sz2 hse)
          in if match_maxlen > break_even_point div 8
             then Some (Inr (endp - match_index, match_maxlen))
             else Some (Inr (MATCH_NOT_FOUND, 0)))))"

definition est_step_search :: "nat \<Rightarrow> encoder \<Rightarrow> (8 word \<times> encoder) run" where
  "est_step_search fuel hse =
     (let window_length = get_input_buffer_size hse;
          lookahead_sz = get_lookahead_size hse;
          msi = hse_match_scan_index hse;
          bias = (if is_finishing hse then 1 else lookahead_sz)
      in if msi > hse_input_size hse - bias
         then (if is_finishing hse then Some (Inr (HSES_FLUSH_BITS, hse))
               else Some (Inr (HSES_SAVE_BACKLOG, hse)))
         else
           let input_offset = get_input_offset hse;
               endp = input_offset + msi;
               start = endp - window_length;
               max_possible = (if hse_input_size hse - msi < lookahead_sz
                               then hse_input_size hse - msi else lookahead_sz)
           in obind (find_longest_match fuel hse start endp max_possible)
                (\<lambda>(match_pos, match_length).
                   if match_pos = MATCH_NOT_FOUND
                   then Some (Inr (HSES_YIELD_TAG_BIT,
                                   hse\<lparr>hse_match_scan_index := hse_match_scan_index hse + 1,
                                       hse_match_length := 0\<rparr>))
                   else
                     let hse1 = hse\<lparr>hse_match_pos := match_pos, hse_match_length := match_length\<rparr>
                     in if match_pos > push_bit (unat (hse_window_sz2 hse1)) 1
                        then Some (Inl (Fatal ''Match assert failed.''))
                        else Some (Inr (HSES_YIELD_TAG_BIT, hse1))))"

definition est_yield_tag_bit :: "encoder \<Rightarrow> (8 word \<times> encoder) result" where
  "est_yield_tag_bit hse =
     (if hse_match_length hse = 0
      then ebind (add_tag_bit hse HEATSHRINK_LITERAL_MARKER) (\<lambda>hse1.
             Inr (HSES_YIELD_LITERAL, hse1))
      else ebind (add_tag_bit hse HEATSHRINK_BACKREF_MARKER) (\<lambda>hse1.
             Inr (HSES_YIELD_BR_INDEX,
                  hse1\<lparr>hse_outgoing_bits := hse_match_pos hse1 - 1,
                       hse_outgoing_bits_count := hse_window_sz2 hse1\<rparr>)))"

definition est_yield_literal :: "encoder \<Rightarrow> (8 word \<times> encoder) result" where
  "est_yield_literal hse = ebind (push_literal_byte hse) (\<lambda>hse1. Inr (HSES_SEARCH, hse1))"

definition est_yield_br_index :: "encoder \<Rightarrow> (8 word \<times> encoder) result" where
  "est_yield_br_index hse =
     ebind (push_outgoing_bits hse) (\<lambda>(count, hse1).
       if count > 0 then Inr (HSES_YIELD_BR_INDEX, hse1)
       else Inr (HSES_YIELD_BR_LENGTH,
                 hse1\<lparr>hse_outgoing_bits := hse_match_length hse1 - 1,
                      hse_outgoing_bits_count := hse_lookahead_sz2 hse1\<rparr>))"

definition est_yield_br_length :: "encoder \<Rightarrow> (8 word \<times> encoder) result" where
  "est_yield_br_length hse =
     ebind (push_outgoing_bits hse) (\<lambda>(count, hse1).
       if count > 0 then Inr (HSES_YIELD_BR_LENGTH, hse1)
       else Inr (HSES_SEARCH,
                 hse1\<lparr>hse_match_scan_index := hse_match_scan_index hse1 + hse_match_length hse1,
                      hse_match_length := 0\<rparr>))"

definition est_save_backlog :: "encoder \<Rightarrow> (8 word \<times> encoder) result" where
  "est_save_backlog hse = ebind (save_backlog hse) (\<lambda>hse1. Inr (HSES_NOT_FULL, hse1))"

definition est_flush_bit_buffer :: "encoder \<Rightarrow> 8 word \<times> encoder" where
  "est_flush_bit_buffer hse =
     (if hse_bit_index hse = 0x80 then (HSES_DONE, hse)
      else (HSES_DONE, hse\<lparr>hse_outbuf := hse_outbuf hse @ [hse_current_byte hse]\<rparr>))"

subsection \<open>The polling loop\<close>

text \<open>\<^verbatim>\<open>hse.state = est_...(hse)\<close>: the step's state is stored.\<close>

definition set_state :: "(8 word \<times> encoder) \<Rightarrow> encoder" where
  "set_state r = (snd r)\<lparr>hse_state := fst r\<rparr>"

text \<open>One pass through the \<^verbatim>\<open>switch\<close> of \<^verbatim>\<open>encoder_poll\<close>: \<open>Inl r\<close> when the case
  returns \<open>r\<close>, \<open>Inr hse'\<close> when the loop goes on with \<open>hse'\<close>.\<close>

definition encoder_poll_switch :: "nat \<Rightarrow> encoder \<Rightarrow> (int + encoder) run" where
  "encoder_poll_switch fuel hse =
     (let in_state = hse_state hse
      in if in_state = HSES_NOT_FULL then Some (Inr (Inl HSER_POLL_EMPTY))
         else if in_state = HSES_FILLED
           then obind (Some (do_indexing hse)) (\<lambda>hse1.
                  Some (Inr (Inr (hse1\<lparr>hse_state := HSES_SEARCH\<rparr>))))
         else if in_state = HSES_SEARCH
           then obind (est_step_search fuel hse) (\<lambda>r. Some (Inr (Inr (set_state r))))
         else if in_state = HSES_YIELD_TAG_BIT
           then obind (Some (est_yield_tag_bit hse)) (\<lambda>r. Some (Inr (Inr (set_state r))))
         else if in_state = HSES_YIELD_LITERAL
           then obind (Some (est_yield_literal hse)) (\<lambda>r. Some (Inr (Inr (set_state r))))
         else if in_state = HSES_YIELD_BR_INDEX
           then obind (Some (est_yield_br_index hse)) (\<lambda>r. Some (Inr (Inr (set_state r))))
         else if in_state = HSES_YIELD_BR_LENGTH
           then obind (Some (est_yield_br_length hse)) (\<lambda>r. Some (Inr (Inr (set_state r))))
         else if in_state = HSES_SAVE_BACKLOG
           then obind (Some (est_save_backlog hse)) (\<lambda>r. Some (Inr (Inr (set_state r))))
         else if in_state = HSES_FLUSH_BITS
           then Some (Inr (Inr (set_state (est_flush_bit_buffer hse))))
         else if in_state = HSES_DONE then Some (Inr (Inl HSER_POLL_EMPTY))
         else Some (Inr (Inl HSER_POLL_ERROR_MISUSE)))"

text \<open>\<^verbatim>\<open>encoder_poll\<close>: \<open>n\<close> bounds the iterations of its own loop, \<open>fuel\<close> is handed
  to each match search.\<close>

fun encoder_poll :: "nat \<Rightarrow> nat \<Rightarrow> encoder \<Rightarrow> (int \<times> encoder) run" where
  "encoder_poll 0 fuel hse = None"
| "encoder_poll (Suc n) fuel hse =
     obind (encoder_poll_switch fuel hse) (\<lambda>c.
       case c of Inl r \<Rightarrow> Some (Inr (r, hse)) | Inr hse1 \<Rightarrow> encoder_poll n fuel hse1)"

subsection \<open>The one-shot entry point\<close>

text \<open>The loop of \<^verbatim>\<open>Compress\<close>. \<open>hse\<close> is the pointer returned by
  \<^verbatim>\<open>encoder_alloc\<close>; calling \<^verbatim>\<open>encoder_sink\<close> on nil panics.\<close>

fun Compress_loop :: "nat \<Rightarrow> nat \<Rightarrow> encoder \<Rightarrow> 8 word list \<Rightarrow> int \<Rightarrow> 8 word list run" where
  "Compress_loop 0 fuel hse data inlen = None"
| "Compress_loop (Suc n) fuel hse data inlen =
     obind (Some (slice_from data inlen)) (\<lambda>rest.
     obind (Some (encoder_sink hse rest)) (\<lambda>(_, tmp, hse1).
       let inlen1 = inlen + uint tmp
       in obind (encoder_poll fuel fuel hse1) (\<lambda>(_, hse2).
            if inlen1 = int (length data)
            then (case encoder_finish hse2 of (r, hse3) \<Rightarrow>
                    if r = HSER_FINISH_DONE then Some (Inr (hse_outbuf hse3))
                    else Compress_loop n fuel hse3 data inlen1)
            else Compress_loop n fuel hse2 data inlen1)))"

definition Compress :: "nat \<Rightarrow> 8 word \<Rightarrow> 8 word \<Rightarrow> 8 word list \<Rightarrow> 8 word list run" where
  "Compress fuel window lookahead data =
     (case encoder_alloc window lookahead of
        None \<Rightarrow> Some (Inl NilDereference)
      | Some hse \<Rightarrow> Compress_loop fuel fuel hse data 0)"

section \<open>decoder.go\<close>

abbreviation (input) HSDS_TAG_BIT :: "8 word" where "HSDS_TAG_BIT \<equiv> 0"
abbreviation (input) HSDS_YIELD_LITERAL :: "8 word" where "HSDS_YIELD_LITERAL \<equiv> 1"
abbreviation (input) HSDS_BACKREF_INDEX_MSB :: "8 word" where "HSDS_BACKREF_INDEX_MSB \<equiv> 2"
abbreviation (input) HSDS_BACKREF_INDEX_LSB :: "8 word" where "HSDS_BACKREF_INDEX_LSB \<equiv> 3"
abbreviation (input) HSDS_BACKREF_COUNT_MSB :: "8 word" where "HSDS_BACKREF_COUNT_MSB \<equiv> 4"
abbreviation (input) HSDS_BACKREF_COUNT_LSB :: "8 word" where "HSDS_BACKREF_COUNT_LSB \<equiv> 5"
abbreviation (input) HSDS_YIELD_BACKREF :: "8 word" where "HSDS_YIELD_BACKREF \<equiv> 6"

abbreviation (input) HSDR_SINK_OK :: int where "HSDR_SINK_OK \<equiv> 0"
abbreviation (input) HSDR_SINK_FULL :: int where "HSDR_SINK_FULL \<equiv> 1"
abbreviation (input) HSDR_POLL_EMPTY :: int where "HSDR_POLL_EMPTY \<equiv> 0"
abbreviation (input) HSDR_POLL_MORE :: int where "HSDR_POLL_MORE \<equiv> 1"
abbreviation (input) HSDR_POLL_ERROR_UNKNOWN :: int where "HSDR_POLL_ERROR_UNKNOWN \<equiv> - 2"
abbreviation (input) HSDR_FINISH_DONE :: int where "HSDR_FINISH_DONE \<equiv> 0"
abbreviation (input) HSDR_FINISH_MORE :: int where "HSDR_FINISH_MORE \<equiv> 1"

abbreviation (input) NO_BITS :: "16 word" where "NO_BITS \<equiv> 0xffff"

record decoder =
  hsd_input_size :: "16 word"
  hsd_input_index :: "16 word"
  hsd_output_count :: "16 word"
  hsd_output_index :: "16 word"
  hsd_head_index :: "16 word"
  hsd_state :: "8 word"
  hsd_current_byte :: "8 word"
  hsd_bit_index :: "8 word"
  hsd_window_sz2 :: "8 word"
  hsd_lookahead_sz2 :: "8 word"
  hsd_decbuf :: "8 word list"
  hsd_inbuf :: "8 word list"
  hsd_outbuf :: "8 word list"

definition decoder_reset :: "decoder \<Rightarrow> decoder" where
  "decoder_reset hsd =
     hsd\<lparr>hsd_state := HSDS_TAG_BIT,
         hsd_input_size := 0,
         hsd_input_index := 0,
         hsd_bit_index := 0x00,
         hsd_current_byte := 0x00,
         hsd_output_count := 0,
         hsd_output_index := 0,
         hsd_head_index := 0,
         hsd_outbuf := []\<rparr>"

text \<open>\<^verbatim>\<open>&decoder{}\<close>: every field has its zero value.\<close>

definition decoder_zero :: decoder where
  "decoder_zero =
     \<lparr>hsd_input_size = 0, hsd_input_index = 0, hsd_output_count = 0, hsd_output_index = 0,
      hsd_head_index = 0, hsd_state = 0, hsd_current_byte = 0, hsd_bit_index = 0,
      hsd_window_sz2 = 0, hsd_lookahead_sz2 = 0, hsd_decbuf = [], hsd_inbuf = [],
      hsd_outbuf = []\<rparr>"

definition decoder_alloc :: "8 word \<Rightarrow> 8 word \<Rightarrow> decoder option" where
  "decoder_alloc window_sz2 lookahead_sz2 =
     (if window_sz2 < HEATSHRINK_MIN_WINDOW_BITS \<or>
         window_sz2 > HEATSHRINK_MAX_WINDOW_BITS \<or>
         lookahead_sz2 < HEATSHRINK_MIN_LOOKAHEAD_BITS \<or>
         lookahead_sz2 \<ge> window_sz2
      then None
      else
        let hsd = decoder_zero\<lparr>hsd_window_sz2 := window_sz2,
                               hsd_lookahead_sz2 := lookahead_sz2\<rparr>;
            hsd1 = hsd\<lparr>hsd_decbuf := replicate (2 ^ unat (hsd_window_sz2 hsd)) 0\<rparr>;
            hsd2 = hsd1\<lparr>hsd_inbuf := replicate 65535 0\<rparr>
        in Some (decoder_reset hsd2))"

definition decoder_sink :: "decoder \<Rightarrow> 8 word list \<Rightarrow> (int \<times> 16 word \<times> decoder) result" where
  "decoder_sink hsd data =
     (let rem = word_of_nat (length (hsd_inbuf hsd)) - hsd_input_size hsd
      in if rem = 0 then Inr (HSDR_SINK_FULL, 0, hsd)
         else
           let size = (if int (length data) < uint rem then word_of_nat (length data) else rem)
           in ebind (slice_from (hsd_inbuf hsd) (uint (hsd_input_size hsd))) (\<lambda>dst.
                Inr (HSDR_SINK_OK, size,
                     hsd\<lparr>hsd_inbuf := take (unat (hsd_input_size hsd)) (hsd_inbuf hsd) @
                                          go_copy dst (take (unat size) data),
                         hsd_input_size := hsd_input_size hsd + size\<rparr>)))"

definition decoder_finish :: "decoder \<Rightarrow> int" where
  "decoder_finish hsd =
     (if hsd_state hsd = HSDS_TAG_BIT \<or>
         hsd_state hsd = HSDS_BACKREF_INDEX_LSB \<or>
         hsd_state hsd = HSDS_BACKREF_INDEX_MSB \<or>
         hsd_state hsd = HSDS_BACKREF_COUNT_LSB \<or>
         hsd_state hsd = HSDS_BACKREF_COUNT_MSB \<or>
         hsd_state hsd = HSDS_YIELD_LITERAL
      then (if hsd_input_size hsd = 0 then HSDR_FINISH_DONE else HSDR_FINISH_MORE)
      else HSDR_FINISH_MORE)"

subsection \<open>Bit input\<close>

text \<open>The loop of \<^verbatim>\<open>get_bits\<close>, with \<open>k\<close> iterations left. The \<^verbatim>\<open>return NO_BITS\<close> inside
  the loop ends it at once.\<close>

fun get_bits_loop :: "nat \<Rightarrow> 16 word \<Rightarrow> decoder \<Rightarrow> (16 word \<times> decoder) result" where
  "get_bits_loop 0 accumulator hsd = Inr (accumulator, hsd)"
| "get_bits_loop (Suc k) accumulator hsd =
     (if hsd_bit_index hsd = 0x00 \<and> hsd_input_size hsd = 0 then Inr (NO_BITS, hsd)
      else
        ebind (if hsd_bit_index hsd = 0x00
               then ebind (index_at (hsd_inbuf hsd) (uint (hsd_input_index hsd))) (\<lambda>b.
                      let hsd1 = hsd\<lparr>hsd_current_byte := b,
                                     hsd_input_index := hsd_input_index hsd + 1\<rparr>;
                          hsd2 = (if hsd_input_index hsd1 = hsd_input_size hsd1
                                  then hsd1\<lparr>hsd_input_index := 0, hsd_input_size := 0\<rparr>
                                  else hsd1)
                      in Inr (hsd2\<lparr>hsd_bit_index := 0x80\<rparr>))
               else Inr hsd) (\<lambda>hsd3.
          let accumulator1 = push_bit 1 accumulator;
              accumulator2 = (if hsd_current_byte hsd3 AND hsd_bit_index hsd3 > 0
                              then accumulator1 OR 0x01 else accumulator1)
          in get_bits_loop k accumulator2
               (hsd3\<lparr>hsd_bit_index := drop_bit 1 (hsd_bit_index hsd3)\<rparr>)))"

text \<open>In \<^verbatim>\<open>hsd.bit_index < (1 << (count - 1))\<close> the constant \<^verbatim>\<open>1\<close> has the type of
  \<^verbatim>\<open>bit_index\<close>, \<^verbatim>\<open>uint8\<close>, and so has the shift.\<close>

definition get_bits :: "decoder \<Rightarrow> 8 word \<Rightarrow> (16 word \<times> decoder) result" where
  "get_bits hsd count =
     (if count > 15 then Inr (NO_BITS, hsd)
      else if hsd_input_size hsd = 0 \<and> hsd_bit_index hsd < push_bit (unat (count - 1)) 1
        then Inr (NO_BITS, hsd)
      else get_bits_loop (unat count) 0 hsd)"

definition push_byte :: "decoder \<Rightarrow> 8 word \<Rightarrow> decoder" where
  "push_byte hsd byte = hsd\<lparr>hsd_outbuf := hsd_outbuf hsd @ [byte]\<rparr>"

subsection \<open>State functions\<close>

definition dst_tag_bit :: "decoder \<Rightarrow> (8 word \<times> decoder) result" where
  "dst_tag_bit hsd =
     ebind (get_bits hsd 1) (\<lambda>(bits, hsd1).
       if bits = NO_BITS then Inr (HSDS_TAG_BIT, hsd1)
       else if bits > 0 then Inr (HSDS_YIELD_LITERAL, hsd1)
       else if hsd_window_sz2 hsd1 > 8 then Inr (HSDS_BACKREF_INDEX_MSB, hsd1)
       else Inr (HSDS_BACKREF_INDEX_LSB, hsd1\<lparr>hsd_output_index := 0\<rparr>))"

definition dst_yield_literal :: "decoder \<Rightarrow> (8 word \<times> decoder) result" where
  "dst_yield_literal hsd =
     ebind (get_bits hsd 8) (\<lambda>(bits, hsd1).
       if bits = NO_BITS then Inr (HSDS_YIELD_LITERAL, hsd1)
       else
         let mask_w = push_bit (unat (hsd_window_sz2 hsd1)) 1 - 1;
             c = ucast (bits AND 0xFF)
         in ebind (store_at (hsd_decbuf hsd1) (uint (hsd_head_index hsd1 AND mask_w)) c) (\<lambda>decbuf1.
              let hsd2 = hsd1\<lparr>hsd_decbuf := decbuf1, hsd_head_index := hsd_head_index hsd1 + 1\<rparr>
              in Inr (HSDS_TAG_BIT, push_byte hsd2 c)))"

definition dst_backref_index_msb :: "decoder \<Rightarrow> (8 word \<times> decoder) result" where
  "dst_backref_index_msb hsd =
     (let bit_ct = hsd_window_sz2 hsd
      in if bit_ct \<le> 8 then Inl (Fatal ''Bit count assert failed.'')
         else ebind (get_bits hsd (bit_ct - 8)) (\<lambda>(bits, hsd1).
                if bits = NO_BITS then Inr (HSDS_BACKREF_INDEX_MSB, hsd1)
                else Inr (HSDS_BACKREF_INDEX_LSB, hsd1\<lparr>hsd_output_index := push_bit 8 bits\<rparr>)))"

definition dst_backref_index_lsb :: "decoder \<Rightarrow> (8 word \<times> decoder) result" where
  "dst_backref_index_lsb hsd =
     (let bit_ct = (if hsd_window_sz2 hsd > 8 then 8 else hsd_window_sz2 hsd)
      in ebind (get_bits hsd bit_ct) (\<lambda>(bits, hsd1).
           if bits = NO_BITS then Inr (HSDS_BACKREF_INDEX_LSB, hsd1)
           else
             let hsd2 = hsd1\<lparr>hsd_output_index := (hsd_output_index hsd1 OR bits) + 1\<rparr>;
                 br_bit_ct = hsd_lookahead_sz2 hsd2;
                 hsd3 = hsd2\<lparr>hsd_output_count := 0\<rparr>
             in if br_bit_ct > 8 then Inr (HSDS_BACKREF_COUNT_MSB, hsd3)
                else Inr (HSDS_BACKREF_COUNT_LSB, hsd3)))"

definition dst_backref_count_msb :: "decoder \<Rightarrow> (8 word \<times> decoder) result" where
  "dst_backref_count_msb hsd =
     (let br_bit_ct = hsd_lookahead_sz2 hsd
      in if br_bit_ct \<le> 8 then Inl (Fatal ''Bit count asser failed.'')
         else ebind (get_bits hsd (br_bit_ct - 8)) (\<lambda>(bits, hsd1).
                if bits = NO_BITS then Inr (HSDS_BACKREF_COUNT_MSB, hsd1)
                else Inr (HSDS_BACKREF_COUNT_LSB, hsd1\<lparr>hsd_output_count := push_bit 8 bits\<rparr>)))"

definition dst_backref_count_lsb :: "decoder \<Rightarrow> (8 word \<times> decoder) result" where
  "dst_backref_count_lsb hsd =
     (let br_bit_ct = (if hsd_lookahead_sz2 hsd > 8 then 8 else hsd_lookahead_sz2 hsd)
      in ebind (get_bits hsd br_bit_ct) (\<lambda>(bits, hsd1).
           if bits = NO_BITS then Inr (HSDS_BACKREF_COUNT_LSB, hsd1)
           else Inr (HSDS_YIELD_BACKREF,
                     hsd1\<lparr>hsd_output_count := (hsd_output_count hsd1 OR bits) + 1\<rparr>)))"

text \<open>The copy loop of \<^verbatim>\<open>dst_yield_backref\<close>, with \<open>k\<close> iterations left.\<close>

fun dst_yield_backref_loop :: "nat \<Rightarrow> 16 word \<Rightarrow> 16 word \<Rightarrow> decoder \<Rightarrow> decoder result" where
  "dst_yield_backref_loop 0 mask_w neg_offset hsd = Inr hsd"
| "dst_yield_backref_loop (Suc k) mask_w neg_offset hsd =
     ebind (index_at (hsd_decbuf hsd) (uint ((hsd_head_index hsd - neg_offset) AND mask_w))) (\<lambda>c.
       let hsd1 = push_byte hsd c
       in ebind (store_at (hsd_decbuf hsd1) (uint (hsd_head_index hsd1 AND mask_w)) c) (\<lambda>decbuf1.
            dst_yield_backref_loop k mask_w neg_offset
              (hsd1\<lparr>hsd_decbuf := decbuf1, hsd_head_index := hsd_head_index hsd1 + 1\<rparr>)))"

definition dst_yield_backref :: "decoder \<Rightarrow> (8 word \<times> decoder) result" where
  "dst_yield_backref hsd =
     (let count = hsd_output_count hsd;
          mask_w = push_bit (unat (hsd_window_sz2 hsd)) 1 - 1;
          neg_offset = hsd_output_index hsd
      in if neg_offset > mask_w + 1 then Inl (Fatal ''neg_offset assert failed.'')
         else if count > push_bit (unat (hsd_lookahead_sz2 hsd)) 1
           then Inl (Fatal ''count assert failed.'')
         else ebind (dst_yield_backref_loop (unat count) mask_w neg_offset hsd) (\<lambda>hsd1.
                let hsd2 = hsd1\<lparr>hsd_output_count := hsd_output_count hsd1 - count\<rparr>
                in if hsd_output_count hsd2 = 0 then Inr (HSDS_TAG_BIT, hsd2)
                   else Inr (HSDS_YIELD_BACKREF, hsd2)))"

subsection \<open>The polling loop\<close>

definition set_dstate :: "(8 word \<times> decoder) \<Rightarrow> decoder" where
  "set_dstate r = (snd r)\<lparr>hsd_state := fst r\<rparr>"

text \<open>The \<^verbatim>\<open>switch\<close> of \<^verbatim>\<open>decoder_poll\<close>: \<open>Inl r\<close> when the default case returns \<open>r\<close>,
  \<open>Inr hsd'\<close> when a state function has run.\<close>

definition decoder_poll_switch :: "decoder \<Rightarrow> (int + decoder) result" where
  "decoder_poll_switch hsd =
     (let in_state = hsd_state hsd
      in if in_state = HSDS_TAG_BIT
           then ebind (dst_tag_bit hsd) (\<lambda>r. Inr (Inr (set_dstate r)))
         else if in_state = HSDS_YIELD_LITERAL
           then ebind (dst_yield_literal hsd) (\<lambda>r. Inr (Inr (set_dstate r)))
         else if in_state = HSDS_BACKREF_INDEX_MSB
           then ebind (dst_backref_index_msb hsd) (\<lambda>r. Inr (Inr (set_dstate r)))
         else if in_state = HSDS_BACKREF_INDEX_LSB
           then ebind (dst_backref_index_lsb hsd) (\<lambda>r. Inr (Inr (set_dstate r)))
         else if in_state = HSDS_BACKREF_COUNT_MSB
           then ebind (dst_backref_count_msb hsd) (\<lambda>r. Inr (Inr (set_dstate r)))
         else if in_state = HSDS_BACKREF_COUNT_LSB
           then ebind (dst_backref_count_lsb hsd) (\<lambda>r. Inr (Inr (set_dstate r)))
         else if in_state = HSDS_YIELD_BACKREF
           then ebind (dst_yield_backref hsd) (\<lambda>r. Inr (Inr (set_dstate r)))
         else Inr (Inl HSDR_POLL_ERROR_UNKNOWN))"

fun decoder_poll :: "nat \<Rightarrow> decoder \<Rightarrow> (int \<times> decoder) run" where
  "decoder_poll 0 hsd = None"
| "decoder_poll (Suc n) hsd =
     obind (Some (decoder_poll_switch hsd)) (\<lambda>c.
       case c of
         Inl r \<Rightarrow> Some (Inr (r, hsd))
       | Inr hsd1 \<Rightarrow>
           if hsd_state hsd1 = hsd_state hsd then Some (Inr (HSDR_POLL_EMPTY, hsd1))
           else decoder_poll n hsd1)"

subsection \<open>The one-shot entry point\<close>

fun Decompress_loop :: "nat \<Rightarrow> nat \<Rightarrow> decoder \<Rightarrow> 8 word list \<Rightarrow> int \<Rightarrow> 8 word list run" where
  "Decompress_loop 0 fuel hsd data inlen = None"
| "Decompress_loop (Suc n) fuel hsd data inlen =
     obind (Some (slice_from data inlen)) (\<lambda>rest.
     obind (Some (decoder_sink hsd rest)) (\<lambda>(_, tmp, hsd1).
       let inlen1 = inlen + uint tmp
       in obind (decoder_poll fuel hsd1) (\<lambda>(_, hsd2).
            if inlen1 = int (length data)
            then (if decoder_finish hsd2 = HSDR_FINISH_DONE then Some (Inr (hsd_outbuf hsd2))
                  else Decompress_loop n fuel hsd2 data inlen1)
            else Decompress_loop n fuel hsd2 data inlen1)))"

definition Decompress :: "nat \<Rightarrow> 8 word \<Rightarrow> 8 word \<Rightarrow> 8 word list \<Rightarrow> 8 word list run" where
  "Decompress fuel window lookahead data =
     (case decoder_alloc window lookahead of
        None \<Rightarrow> Some (Inl NilDereference)
      | Some hsd \<Rightarrow> Decompress_loop fuel fuel hsd data 0)"

section \<open>Evaluation\<close>

text \<open>Rules that let the simplifier run the model on concrete inputs: a bind is
  rewritten only after its first argument has been evaluated, and a fuel or iteration
  count given as a numeral is unfolded one step at a time.\<close>

lemma obind_weak_cong: "m = m' \<Longrightarrow> obind m f = obind m' f"
  by simp

lemma ebind_weak_cong: "m = m' \<Longrightarrow> ebind m f = ebind m' f"
  by simp

lemmas push_bits_loop_numeral =
  push_bits_loop.simps(2) [of "pred_numeral k" for k, folded numeral_eq_Suc]
lemmas do_indexing_loop_numeral =
  do_indexing_loop.simps(2) [of "pred_numeral k" for k, folded numeral_eq_Suc]
lemmas find_longest_match_loop_numeral =
  find_longest_match_loop.simps(2) [of "pred_numeral k" for k, folded numeral_eq_Suc]
lemmas encoder_poll_numeral =
  encoder_poll.simps(2) [of "pred_numeral k" for k, folded numeral_eq_Suc]
lemmas Compress_loop_numeral =
  Compress_loop.simps(2) [of "pred_numeral k" for k, folded numeral_eq_Suc]
lemmas get_bits_loop_numeral =
  get_bits_loop.simps(2) [of "pred_numeral k" for k, folded numeral_eq_Suc]
lemmas dst_yield_backref_loop_numeral =
  dst_yield_backref_loop.simps(2) [of "pred_numeral k" for k, folded numeral_eq_Suc]
lemmas decoder_poll_numeral =
  decoder_poll.simps(2) [of "pred_numeral k" for k, folded numeral_eq_Suc]
lemmas Decompress_loop_numeral =
  Decompress_loop.simps(2) [of "pred_numeral k" for k, folded numeral_eq_Suc]

text \<open>\<^verbatim>\<open>push_outgoing_bits\<close> with \<open>count\<close> and \<open>bits\<close> as separate bindings.\<close>

lemma push_outgoing_bits_eval:
  "push_outgoing_bits hse =
     (let count = (if hse_outgoing_bits_count hse > 8 then 8 else hse_outgoing_bits_count hse);
          bits = (if hse_outgoing_bits_count hse > 8
                  then ucast (drop_bit (unat (hse_outgoing_bits_count hse - 8))
                                (hse_outgoing_bits hse))
                  else ucast (hse_outgoing_bits hse))
      in if count > 0
         then ebind (push_bits hse count bits) (\<lambda>hse1.
                Inr (count, hse1\<lparr>hse_outgoing_bits_count := hse_outgoing_bits_count hse1 - count\<rparr>))
         else Inr (count, hse))"
  by (simp add: push_outgoing_bits_def Let_def)

lemmas go_eval = Let_def slice_from_def index_at_def store_at_def go_copy_def nth_append

lemmas encoder_eval =
  Compress_def encoder_alloc_def encoder_reset_def encoder_zero_def
  Compress_loop_numeral encoder_poll_numeral find_longest_match_loop_numeral
  do_indexing_loop_numeral push_bits_loop_numeral
  is_finishing_def get_input_buffer_size_def get_input_offset_def get_lookahead_size_def
  encoder_sink_def encoder_finish_def push_bits_def add_tag_bit_def push_outgoing_bits_eval
  push_literal_byte_def save_backlog_def do_indexing_def match_len_loop.simps
  find_longest_match_def est_step_search_def est_yield_tag_bit_def est_yield_literal_def
  est_yield_br_index_def est_yield_br_length_def est_save_backlog_def est_flush_bit_buffer_def
  set_state_def encoder_poll_switch_def

lemmas decoder_eval =
  Decompress_def decoder_alloc_def decoder_reset_def decoder_zero_def
  Decompress_loop_numeral decoder_poll_numeral get_bits_loop_numeral
  dst_yield_backref_loop_numeral
  decoder_sink_def decoder_finish_def get_bits_def push_byte_def
  dst_tag_bit_def dst_yield_literal_def dst_backref_index_msb_def dst_backref_index_lsb_def
  dst_backref_count_msb_def dst_backref_count_lsb_def dst_yield_backref_def
  set_dstate_def decoder_poll_switch_def

section \<open>Parameter validation\<close>

text \<open>
  C8. The constructors return nil exactly when \<open>window_bits < 4\<close>, \<open>window_bits > 15\<close>,
  \<open>lookahead_bits < 3\<close> or \<open>lookahead_bits \<ge> window_bits\<close>. Inside those bounds
  \<^verbatim>\<open>encoder_alloc\<close> returns an encoder in state \<open>NOT_FULL\<close> with no input, an empty bit
  accumulator (\<open>bit_index = 0x80\<close>), no output, and zeroed \<open>buffer\<close> and
  \<open>search_index\<close> of \<open>2 * 2 ^ window_bits\<close> entries; \<^verbatim>\<open>decoder_alloc\<close> returns a
  decoder in state \<open>TAG_BIT\<close> with no input, no pending bits (\<open>bit_index = 0\<close>), no
  output, a zeroed window of \<open>2 ^ window_bits\<close> bytes and an input buffer of 65535 bytes.
\<close>

theorem alloc_validation:
  "(encoder_alloc w l = None) = (w < 4 \<or> w > 15 \<or> l < 3 \<or> l \<ge> w) \<and>
   (decoder_alloc w l = None) = (w < 4 \<or> w > 15 \<or> l < 3 \<or> l \<ge> w) \<and>
   (4 \<le> w \<and> w \<le> 15 \<and> 3 \<le> l \<and> l < w \<longrightarrow>
      encoder_alloc w l =
        Some \<lparr>hse_input_size = 0, hse_match_scan_index = 0, hse_match_length = 0,
              hse_match_pos = 0, hse_outgoing_bits = 0, hse_outgoing_bits_count = 0,
              hse_finishing = False, hse_state = HSES_NOT_FULL, hse_current_byte = 0,
              hse_bit_index = 0x80, hse_window_sz2 = w, hse_lookahead_sz2 = l,
              hse_search_index = replicate (2 * 2 ^ unat w) 0,
              hse_buffer = replicate (2 * 2 ^ unat w) 0, hse_outbuf = []\<rparr> \<and>
      decoder_alloc w l =
        Some \<lparr>hsd_input_size = 0, hsd_input_index = 0, hsd_output_count = 0,
              hsd_output_index = 0, hsd_head_index = 0, hsd_state = HSDS_TAG_BIT,
              hsd_current_byte = 0, hsd_bit_index = 0, hsd_window_sz2 = w,
              hsd_lookahead_sz2 = l, hsd_decbuf = replicate (2 ^ unat w) 0,
              hsd_inbuf = replicate 65535 0, hsd_outbuf = []\<rparr>)"
  by (auto simp: encoder_alloc_def decoder_alloc_def encoder_reset_def decoder_reset_def
        encoder_zero_def decoder_zero_def Let_def)

theorem alloc_validation_witness:
  "encoder_alloc 8 3 =
     Some \<lparr>hse_input_size = 0, hse_match_scan_index = 0, hse_match_length = 0,
           hse_match_pos = 0, hse_outgoing_bits = 0, hse_outgoing_bits_count = 0,
           hse_finishing = False, hse_state = HSES_NOT_FULL, hse_current_byte = 0,
           hse_bit_index = 0x80, hse_window_sz2 = 8, hse_lookahead_sz2 = 3,
           hse_search_index = replicate 512 0,
           hse_buffer = replicate 512 0, hse_outbuf = []\<rparr> \<and>
   decoder_alloc 8 3 =
     Some \<lparr>hsd_input_size = 0, hsd_input_index = 0, hsd_output_count = 0,
           hsd_output_index = 0, hsd_head_index = 0, hsd_state = HSDS_TAG_BIT,
           hsd_current_byte = 0, hsd_bit_index = 0, hsd_window_sz2 = 8,
           hsd_lookahead_sz2 = 3, hsd_decbuf = replicate 256 0,
           hsd_inbuf = replicate 65535 0, hsd_outbuf = []\<rparr> \<and>
   encoder_alloc 3 3 = None \<and> decoder_alloc 16 3 = None \<and>
   encoder_alloc 8 2 = None \<and> decoder_alloc 8 8 = None"
  using alloc_validation [of 8 3] alloc_validation [of 3 3] alloc_validation [of 16 3]
    alloc_validation [of 8 2] alloc_validation [of 8 8]
  by simp

section \<open>Finishing the decoder\<close>

text \<open>
  C7. \<^verbatim>\<open>decoder_finish\<close> returns \<open>DONE\<close> if and only if the state is one of \<open>TAG_BIT\<close>,
  \<open>BACKREF_INDEX_MSB\<close>, \<open>BACKREF_INDEX_LSB\<close>, \<open>BACKREF_COUNT_MSB\<close>,
  \<open>BACKREF_COUNT_LSB\<close>, \<open>YIELD_LITERAL\<close> and \<open>input_size\<close> is 0; in every other case
  it returns \<open>MORE\<close>, in particular in state \<open>YIELD_BACKREF\<close> whatever \<open>input_size\<close> is.
\<close>

theorem decoder_finish_done_iff:
  "(decoder_finish hsd = HSDR_FINISH_DONE) =
     (hsd_state hsd \<in> {HSDS_TAG_BIT, HSDS_BACKREF_INDEX_MSB, HSDS_BACKREF_INDEX_LSB,
                        HSDS_BACKREF_COUNT_MSB, HSDS_BACKREF_COUNT_LSB, HSDS_YIELD_LITERAL} \<and>
      hsd_input_size hsd = 0) \<and>
   (decoder_finish hsd = HSDR_FINISH_DONE \<or> decoder_finish hsd = HSDR_FINISH_MORE) \<and>
   (hsd_state hsd = HSDS_YIELD_BACKREF \<longrightarrow> decoder_finish hsd = HSDR_FINISH_MORE)"
  by (auto simp: decoder_finish_def)

theorem decoder_finish_done_iff_witness:
  "decoder_finish (decoder_zero\<lparr>hsd_state := HSDS_YIELD_BACKREF\<rparr>) = HSDR_FINISH_MORE \<and>
   decoder_finish (decoder_zero\<lparr>hsd_state := HSDS_YIELD_BACKREF, hsd_input_size := 5\<rparr>)
     = HSDR_FINISH_MORE \<and>
   decoder_finish (decoder_zero\<lparr>hsd_state := HSDS_BACKREF_COUNT_LSB\<rparr>) = HSDR_FINISH_DONE \<and>
   decoder_finish (decoder_zero\<lparr>hsd_state := HSDS_BACKREF_COUNT_LSB, hsd_input_size := 5\<rparr>)
     = HSDR_FINISH_MORE"
  using decoder_finish_done_iff [of "decoder_zero\<lparr>hsd_state := HSDS_YIELD_BACKREF\<rparr>"]
    decoder_finish_done_iff
      [of "decoder_zero\<lparr>hsd_state := HSDS_YIELD_BACKREF, hsd_input_size := 5\<rparr>"]
    decoder_finish_done_iff [of "decoder_zero\<lparr>hsd_state := HSDS_BACKREF_COUNT_LSB\<rparr>"]
    decoder_finish_done_iff
      [of "decoder_zero\<lparr>hsd_state := HSDS_BACKREF_COUNT_LSB, hsd_input_size := 5\<rparr>"]
  by (auto simp: decoder_zero_def)

section \<open>The scan-exhaustion check of the encoder\<close>

text \<open>
  C3. The run \<^verbatim>\<open>encoder_alloc(4, 3)\<close>, \<^verbatim>\<open>encoder_finish\<close>, then the first pass of
  \<^verbatim>\<open>encoder_poll\<close> (indexing) enters \<open>SEARCH\<close> with the finishing flag set,
  \<open>input_size = 0\<close> and \<open>match_scan_index = 0\<close>. As integers \<open>0 > 0 - 1\<close>, but
  \<^verbatim>\<open>hse.input_size-bias\<close> is computed in \<^verbatim>\<open>uint16\<close> and is 65535: \<^verbatim>\<open>est_step_search\<close>
  does not go to \<open>FLUSH_BITS\<close>; it searches for a match, returns \<open>YIELD_TAG_BIT\<close> and
  advances \<open>match_scan_index\<close> to 1.
\<close>

theorem est_step_search_finishing_empty:
  "(case encoder_alloc 4 3 of
      None \<Rightarrow> None
    | Some hse0 \<Rightarrow>
        obind (encoder_poll_switch 1 (snd (encoder_finish hse0))) (\<lambda>c.
          case c of
            Inl r \<Rightarrow> None
          | Inr hse1 \<Rightarrow>
              obind (est_step_search 2 hse1) (\<lambda>(s, hse2).
                Some (Inr (hse_state hse1, hse_finishing hse1, hse_input_size hse1,
                           hse_match_scan_index hse1, s, hse_match_scan_index hse2)))))
   = Some (Inr (HSES_SEARCH, True, 0, 0, HSES_YIELD_TAG_BIT, 1))"
  by code_simp

section \<open>Empty input\<close>

text \<open>
  C2. \<^verbatim>\<open>Compress(4, 3, [])\<close> does not return the empty byte string: it panics with
  "index out of range [32] with length 32" (the read of \<^verbatim>\<open>search_index[end]\<close> in
  \<^verbatim>\<open>find_longest_match\<close>), after sixteen literals of stale buffer content.
\<close>

theorem Compress_empty_panics:
  "Compress 50 4 3 [] = Some (Inl (IndexOutOfRange 32 32))"
  by code_simp

text \<open>The decoder half of the claim holds: for valid parameters \<^verbatim>\<open>Decompress\<close> of the
  empty byte string returns the empty byte string.\<close>

lemma decoder_sink_Nil:
  "length (hsd_inbuf hsd) = 65535 \<Longrightarrow> hsd_input_size hsd = 0 \<Longrightarrow>
   decoder_sink hsd [] = Inr (HSDR_SINK_OK, 0, hsd)"
  by (simp add: decoder_sink_def slice_from_def go_copy_def)

lemma decoder_poll_suspended:
  "hsd_state hsd = HSDS_TAG_BIT \<Longrightarrow> hsd_input_size hsd = 0 \<Longrightarrow> hsd_bit_index hsd = 0 \<Longrightarrow>
   decoder_poll (Suc n) hsd = Some (Inr (HSDR_POLL_EMPTY, hsd))"
  by (simp add: decoder_poll_switch_def dst_tag_bit_def get_bits_def set_dstate_def)

lemma alloc_validation_aux:
  "4 \<le> w \<Longrightarrow> w \<le> 15 \<Longrightarrow> 3 \<le> l \<Longrightarrow> l < w \<Longrightarrow>
   \<exists>hsd. decoder_alloc w l = Some hsd \<and> length (hsd_inbuf hsd) = 65535 \<and>
     hsd_input_size hsd = 0 \<and> hsd_state hsd = HSDS_TAG_BIT \<and> hsd_bit_index hsd = 0 \<and>
     hsd_outbuf hsd = []"
  by (auto simp: decoder_alloc_def decoder_reset_def decoder_zero_def Let_def)

lemma Decompress_empty:
  assumes "4 \<le> w" "w \<le> 15" "3 \<le> l" "l < w"
  shows "Decompress (Suc n) w l [] = Some (Inr [])"
proof -
  from assms obtain hsd where a: "decoder_alloc w l = Some hsd"
    and f: "length (hsd_inbuf hsd) = 65535" "hsd_input_size hsd = 0"
      "hsd_state hsd = HSDS_TAG_BIT" "hsd_bit_index hsd = 0" "hsd_outbuf hsd = []"
    using alloc_validation_aux by blast
  show ?thesis
    using f
    by (simp add: Decompress_def a slice_from_def decoder_sink_Nil decoder_poll_suspended
          decoder_finish_def del: decoder_poll.simps)
qed

section \<open>Round trip\<close>

text \<open>
  C1. With \<open>window_bits = 4\<close> and \<open>lookahead_bits = 3\<close> the sixteen bytes
  \<open>1, \<dots>, 8, 1, \<dots>, 8\<close> fill the input buffer exactly and the last match ends at its
  end, so that the backlog is saved with \<open>input_size = 0\<close>. \<^verbatim>\<open>Compress\<close> then finishes
  on an empty input region and panics with "index out of range [32] with length 32":
  there is no compressed stream to decompress.
\<close>

theorem Compress_full_window_panics:
  "Compress 50 4 3 [1, 2, 3, 4, 5, 6, 7, 8, 1, 2, 3, 4, 5, 6, 7, 8]
     = Some (Inl (IndexOutOfRange 32 32))"
  by (simp add: encoder_eval go_eval cong: ebind_weak_cong obind_weak_cong let_weak_cong)

section \<open>Bounds of the encoder's arrays\<close>

text \<open>
  C10. The host drive sequence \<^verbatim>\<open>encoder_alloc(4, 3)\<close>, \<^verbatim>\<open>encoder_sink\<close> of no bytes,
  \<^verbatim>\<open>encoder_poll\<close>, \<^verbatim>\<open>encoder_finish\<close>, \<^verbatim>\<open>encoder_poll\<close> ends in the panic of an
  access to \<open>search_index\<close> at index 32, the length of the array (\<open>2 * W = 32\<close>).
\<close>

theorem encoder_drive_out_of_bounds:
  "(case encoder_alloc 4 3 of
      None \<Rightarrow> None
    | Some hse0 \<Rightarrow>
        obind (Some (encoder_sink hse0 [])) (\<lambda>(r1, n1, hse1).
        obind (encoder_poll 50 50 hse1) (\<lambda>(r2, hse2).
          encoder_poll 50 50 (snd (encoder_finish hse2)))))
   = Some (Inl (IndexOutOfRange 32 32))"
  by code_simp

section \<open>The example of the specification\<close>

text \<open>
  C5. \<^verbatim>\<open>Compress(8, 3, "A")\<close> returns the two bytes \<open>0xA0 0x80\<close>, and \<^verbatim>\<open>Decompress\<close> of
  those two bytes with the same parameters returns \<open>"A"\<close>.
\<close>

theorem Compress_A:
  "Compress 7 8 3 [0x41] = Some (Inr [0xA0, 0x80]) \<and>
   Decompress 4 8 3 [0xA0, 0x80] = Some (Inr [0x41])"
  by (simp add: encoder_eval decoder_eval go_eval
        cong: ebind_weak_cong obind_weak_cong let_weak_cong)

end
